theory Spec2Isabelle
  imports Complex_Main
begin

section \<open>Python values, exceptions and arithmetic\<close>

text \<open>
  The solvers of \<^verbatim>\<open>HighSchool_Physic_Assistant_Improve.py\<close> work on optional floats
  (\<^verbatim>\<open>None\<close> is an unknown quantity) and write their answer into the dictionary
  \<^verbatim>\<open>self.results\<close>. The float arithmetic is not code of the program but of the
  language, so the solvers take it as a parameter: a float is a value of a type \<open>'f\<close>
  and the operations the source uses on floats are the fields of an \<open>'f arith\<close>.
  Every theorem stated for an arbitrary arithmetic holds for IEEE doubles with their
  rounding, overflow, underflow, infinities and NaN. Exceptions are values: a
  computation returns \<open>Inl\<close> of the exception raised or \<open>Inr\<close> of its value.
\<close>

datatype error = ValueError string | ZeroDivisionError | OverflowError | TypeError

datatype 'f pyval = Num 'f | Str string

type_synonym 'f results = "(string \<times> 'f pyval) list"

text \<open>
  The float operations of the source. \<open>f_div\<close> is the quotient by a divisor that is not
  zero, \<open>f_sqrt\<close> the root of an argument that is not negative (the two failing cases
  are raised by \<open>py_truediv\<close> and \<open>math_sqrt\<close> below). \<open>f_pow x n\<close> is
  \<^verbatim>\<open>x ** n\<close>, which raises OverflowError (\<open>None\<close>) when the result is too large,
  where the other operations return an infinity. \<open>f_is_zero x\<close> is \<^verbatim>\<open>x == 0\<close>,
  \<open>f_is_neg x\<close> is \<^verbatim>\<open>x < 0\<close>, \<open>f_lit\<close> reads a numeric literal, and \<open>f_val\<close> is the
  real number a finite float stands for.
\<close>

record 'f arith =
  f_add :: "'f \<Rightarrow> 'f \<Rightarrow> 'f"
  f_sub :: "'f \<Rightarrow> 'f \<Rightarrow> 'f"
  f_mul :: "'f \<Rightarrow> 'f \<Rightarrow> 'f"
  f_div :: "'f \<Rightarrow> 'f \<Rightarrow> 'f"
  f_pow :: "'f \<Rightarrow> nat \<Rightarrow> 'f option"
  f_sqrt :: "'f \<Rightarrow> 'f"
  f_is_zero :: "'f \<Rightarrow> bool"
  f_is_neg :: "'f \<Rightarrow> bool"
  f_lit :: "real \<Rightarrow> 'f"
  f_val :: "'f \<Rightarrow> real"

text \<open>
  The arithmetic used to evaluate the solvers on concrete inputs: floats are the reals
  they stand for, every operation is exact, and a power whose magnitude reaches
  \<open>2 ^ 1024\<close> raises OverflowError. It agrees with IEEE doubles wherever no operation
  rounds, as on the small inputs evaluated below.
\<close>

definition exact_arith :: "real arith" where
  "exact_arith =
     \<lparr>f_add = (\<lambda>x y. x + y), f_sub = (\<lambda>x y. x - y), f_mul = (\<lambda>x y. x * y),
      f_div = (\<lambda>x y. x / y),
      f_pow = (\<lambda>x n. if 2 ^ 1024 \<le> \<bar>x ^ n\<bar> then None else Some (x ^ n)),
      f_sqrt = sqrt, f_is_zero = (\<lambda>x. x = 0), f_is_neg = (\<lambda>x. x < 0),
      f_lit = (\<lambda>x. x), f_val = (\<lambda>x. x)\<rparr>"

definition then_py :: "error + 'a \<Rightarrow> ('a \<Rightarrow> error + 'b) \<Rightarrow> error + 'b" where
  "then_py m f = (case m of Inl e \<Rightarrow> Inl e | Inr x \<Rightarrow> f x)"

text \<open>Reading a variable in an arithmetic expression: \<^verbatim>\<open>None\<close> as an operand is a TypeError.\<close>

definition num :: "'f option \<Rightarrow> error + 'f" where
  "num v = (case v of None \<Rightarrow> Inl TypeError | Some x \<Rightarrow> Inr x)"

definition lit :: "'f arith \<Rightarrow> real \<Rightarrow> error + 'f" where
  "lit A x = Inr (f_lit A x)"

definition py_add :: "'f arith \<Rightarrow> error + 'f \<Rightarrow> error + 'f \<Rightarrow> error + 'f" where
  "py_add A a b = then_py a (\<lambda>x. then_py b (\<lambda>y. Inr (f_add A x y)))"

definition py_sub :: "'f arith \<Rightarrow> error + 'f \<Rightarrow> error + 'f \<Rightarrow> error + 'f" where
  "py_sub A a b = then_py a (\<lambda>x. then_py b (\<lambda>y. Inr (f_sub A x y)))"

definition py_mul :: "'f arith \<Rightarrow> error + 'f \<Rightarrow> error + 'f \<Rightarrow> error + 'f" where
  "py_mul A a b = then_py a (\<lambda>x. then_py b (\<lambda>y. Inr (f_mul A x y)))"

definition py_truediv :: "'f arith \<Rightarrow> error + 'f \<Rightarrow> error + 'f \<Rightarrow> error + 'f" where
  "py_truediv A a b =
     then_py a (\<lambda>x. then_py b (\<lambda>y.
       if f_is_zero A y then Inl ZeroDivisionError else Inr (f_div A x y)))"

definition py_pow :: "'f arith \<Rightarrow> error + 'f \<Rightarrow> nat \<Rightarrow> error + 'f" where
  "py_pow A a n =
     then_py a (\<lambda>x. case f_pow A x n of None \<Rightarrow> Inl OverflowError | Some y \<Rightarrow> Inr y)"

definition math_sqrt :: "'f arith \<Rightarrow> error + 'f \<Rightarrow> error + 'f" where
  "math_sqrt A a =
     then_py a (\<lambda>x.
       if f_is_neg A x then Inl (ValueError ''math domain error'') else Inr (f_sqrt A x))"

text \<open>\<^verbatim>\<open>x == 0\<close> on an optional float: \<^verbatim>\<open>None == 0\<close> is false.\<close>

definition eq_zero :: "'f arith \<Rightarrow> 'f option \<Rightarrow> bool" where
  "eq_zero A v = (case v of None \<Rightarrow> False | Some x \<Rightarrow> f_is_zero A x)"

text \<open>\<^verbatim>\<open>d[k] = v\<close> on a dictionary that keeps insertion order.\<close>

fun setitem :: "('k \<times> 'v) list \<Rightarrow> 'k \<Rightarrow> 'v \<Rightarrow> ('k \<times> 'v) list" where
  "setitem [] k v = [(k, v)]"
| "setitem ((k', v') # d) k v = (if k' = k then (k, v) # d else (k', v') # setitem d k v)"

text \<open>\<^verbatim>\<open>self.results[k] = e\<close>: the expression \<^verbatim>\<open>e\<close> is evaluated first.\<close>

definition assign :: "'f results \<Rightarrow> string \<Rightarrow> error + 'f \<Rightarrow> error + 'f results" where
  "assign d k e = then_py e (\<lambda>x. Inr (setitem d k (Num x)))"

text \<open>\<^verbatim>\<open>self.results["formula"] = label\<close> after the solved quantity has been stored.\<close>

definition with_formula :: "string \<Rightarrow> error + 'f results \<Rightarrow> error + 'f results" where
  "with_formula label m = then_py m (\<lambda>d. Inr (setitem d ''formula'' (Str label)))"

text \<open>\<^verbatim>\<open>try: body except ZeroDivisionError: raise handler\<close>\<close>

definition except_ZeroDivisionError :: "error + 'a \<Rightarrow> error \<Rightarrow> error + 'a" where
  "except_ZeroDivisionError body handler =
     (case body of Inl ZeroDivisionError \<Rightarrow> Inl handler | _ \<Rightarrow> body)"

text \<open>\<^verbatim>\<open>sum(val is None for val in vals)\<close>\<close>

definition none_count :: "'f option list \<Rightarrow> nat" where
  "none_count vals = sum_list (map (\<lambda>val. if val = None then 1 else 0) vals)"

text \<open>The superscript two of the formula labels, as its two UTF-8 bytes.\<close>

definition sup2 :: string where
  "sup2 = [CHR 0xC2, CHR 0xB2]"

definition GRAVITY_FORCE :: "'f arith \<Rightarrow> 'f" where
  "GRAVITY_FORCE A = f_lit A 9.8"

section \<open>Motion.calculate\<close>

definition Motion_calculate ::
  "'f arith \<Rightarrow> 'f option \<Rightarrow> 'f option \<Rightarrow> 'f option \<Rightarrow> 'f results \<Rightarrow> error + 'f results" where
  "Motion_calculate A speed time distance results =
    (if none_count [speed, time, distance] \<noteq> 1
     then Inl (ValueError ''You must provide exactly 2 values!'')
     else except_ZeroDivisionError
       (if speed = None then
          (if eq_zero A time then Inl (ValueError ''Time cannot be zero!'')
           else assign results ''speed'' (py_truediv A (num distance) (num time)))
        else if distance = None then
          assign results ''distance'' (py_mul A (num speed) (num time))
        else if time = None then
          (if eq_zero A speed then Inl (ValueError ''Speed cannot be zero!'')
           else assign results ''time'' (py_truediv A (num distance) (num speed)))
        else Inr results)
       (ValueError ''Cannot divide by zero!''))"

section \<open>EquationOfMotion.calculate\<close>

definition EquationOfMotion_calculate ::
  "'f arith \<Rightarrow> 'f option \<Rightarrow> 'f option \<Rightarrow> 'f option \<Rightarrow> 'f option \<Rightarrow> 'f option \<Rightarrow> 'f results
     \<Rightarrow> error + 'f results" where
  "EquationOfMotion_calculate A initial_velocity final_velocity acceleration time distance results =
    except_ZeroDivisionError
     (if final_velocity = None \<and> initial_velocity \<noteq> None \<and> acceleration \<noteq> None \<and> time \<noteq> None then
        with_formula ''v = u + at''
          (assign results ''final_velocity''
             (py_add A (num initial_velocity) (py_mul A (num acceleration) (num time))))
      else if final_velocity \<noteq> None \<and> initial_velocity = None \<and> acceleration \<noteq> None \<and> time \<noteq> None then
        with_formula ''v = u + at''
          (assign results ''initial_velocity''
             (py_sub A (num final_velocity) (py_mul A (num acceleration) (num time))))
      else if final_velocity \<noteq> None \<and> initial_velocity \<noteq> None \<and> acceleration = None \<and> time \<noteq> None then
        (if eq_zero A time then Inl (ValueError ''Time cannot be zero!'')
         else with_formula ''v = u + at''
          (assign results ''acceleration''
             (py_truediv A (py_sub A (num final_velocity) (num initial_velocity)) (num time))))
      else if final_velocity \<noteq> None \<and> initial_velocity \<noteq> None \<and> acceleration \<noteq> None \<and> time = None then
        (if eq_zero A acceleration then Inl (ValueError ''Acceleration cannot be zero!'')
         else with_formula ''v = u + at''
          (assign results ''time''
             (py_truediv A (py_sub A (num final_velocity) (num initial_velocity))
                (num acceleration))))
      else if distance = None \<and> initial_velocity \<noteq> None \<and> time \<noteq> None \<and> acceleration \<noteq> None then
        with_formula (''s = ut + 0.5at'' @ sup2)
          (assign results ''distance''
             (py_add A (py_mul A (num initial_velocity) (num time))
                (py_mul A (lit A 0.5) (py_mul A (num acceleration) (py_pow A (num time) 2)))))
      else if distance \<noteq> None \<and> initial_velocity = None \<and> time \<noteq> None \<and> acceleration \<noteq> None then
        (if eq_zero A time then Inl (ValueError ''Time cannot be zero!'')
         else with_formula (''s = ut + 0.5at'' @ sup2)
          (assign results ''initial_velocity''
             (py_truediv A
                (py_sub A (num distance)
                   (py_mul A (py_mul A (lit A 0.5) (num acceleration)) (py_pow A (num time) 2)))
                (num time))))
      else if distance \<noteq> None \<and> initial_velocity \<noteq> None \<and> time \<noteq> None \<and> acceleration = None then
        (if eq_zero A time then Inl (ValueError ''Time cannot be zero!'')
         else with_formula (''s = ut + 0.5at'' @ sup2)
          (assign results ''acceleration''
             (py_truediv A
                (py_mul A (lit A 2)
                   (py_sub A (num distance) (py_mul A (num initial_velocity) (num time))))
                (py_pow A (num time) 2))))
      else if final_velocity = None \<and> initial_velocity \<noteq> None \<and> acceleration \<noteq> None \<and> distance \<noteq> None then
        then_py
          (py_add A (py_pow A (num initial_velocity) 2)
             (py_mul A (py_mul A (lit A 2) (num acceleration)) (num distance)))
          (\<lambda>velocity_squared.
             if f_is_neg A velocity_squared
             then Inl (ValueError ''Cannot calculate square root of negative number!'')
             else with_formula (''v'' @ sup2 @ '' = u'' @ sup2 @ '' + 2as'')
               (assign results ''final_velocity'' (math_sqrt A (Inr velocity_squared))))
      else if final_velocity \<noteq> None \<and> initial_velocity = None \<and> acceleration \<noteq> None \<and> distance \<noteq> None then
        then_py
          (py_sub A (py_pow A (num final_velocity) 2)
             (py_mul A (py_mul A (lit A 2) (num acceleration)) (num distance)))
          (\<lambda>initial_velocity_squared.
             if f_is_neg A initial_velocity_squared
             then Inl (ValueError ''Cannot calculate square root of negative number!'')
             else with_formula (''v'' @ sup2 @ '' = u'' @ sup2 @ '' + 2as'')
               (assign results ''initial_velocity''
                  (math_sqrt A (Inr initial_velocity_squared))))
      else if final_velocity \<noteq> None \<and> initial_velocity \<noteq> None \<and> acceleration = None \<and> distance \<noteq> None then
        (if eq_zero A distance then Inl (ValueError ''Distance cannot be zero!'')
         else with_formula (''v'' @ sup2 @ '' = u'' @ sup2 @ '' + 2as'')
          (assign results ''acceleration''
             (py_truediv A
                (py_sub A (py_pow A (num final_velocity) 2) (py_pow A (num initial_velocity) 2))
                (py_mul A (lit A 2) (num distance)))))
      else if final_velocity \<noteq> None \<and> initial_velocity \<noteq> None \<and> acceleration \<noteq> None \<and> distance = None then
        (if eq_zero A acceleration then Inl (ValueError ''Acceleration cannot be zero!'')
         else with_formula (''v'' @ sup2 @ '' = u'' @ sup2 @ '' + 2as'')
          (assign results ''distance''
             (py_truediv A
                (py_sub A (py_pow A (num final_velocity) 2) (py_pow A (num initial_velocity) 2))
                (py_mul A (lit A 2) (num acceleration)))))
      else Inl (ValueError ''Insufficient data or invalid combination of inputs!''))
     (ValueError ''Division by zero error!'')"

section \<open>FreeFall.calculate\<close>

definition FreeFall_calculate ::
  "'f arith \<Rightarrow> 'f option \<Rightarrow> 'f option \<Rightarrow> 'f option \<Rightarrow> 'f results \<Rightarrow> error + 'f results" where
  "FreeFall_calculate A final_velocity height time results =
    (let gravity = GRAVITY_FORCE A in
     if none_count [final_velocity, height, time] \<noteq> 1
     then Inl (ValueError ''You must provide exactly 2 values!'')
     else except_ZeroDivisionError
       (if final_velocity = None \<and> time \<noteq> None then
          with_formula ''v = gt''
            (assign results ''final_velocity'' (py_mul A (Inr gravity) (num time)))
        else if time = None \<and> final_velocity \<noteq> None then
          with_formula ''v = gt''
            (assign results ''time'' (py_truediv A (num final_velocity) (Inr gravity)))
        else if final_velocity = None \<and> height \<noteq> None then
          with_formula (''v'' @ sup2 @ '' = 2gh'')
            (assign results ''final_velocity''
               (math_sqrt A (py_mul A (py_mul A (lit A 2) (Inr gravity)) (num height))))
        else if height = None \<and> final_velocity \<noteq> None then
          with_formula (''v'' @ sup2 @ '' = 2gh'')
            (assign results ''height''
               (py_truediv A (py_pow A (num final_velocity) 2)
                  (py_mul A (lit A 2) (Inr gravity))))
        else if height = None \<and> time \<noteq> None then
          with_formula (''h = 0.5gt'' @ sup2)
            (assign results ''height''
               (py_mul A (py_mul A (lit A 0.5) (Inr gravity)) (py_pow A (num time) 2)))
        else if time = None \<and> height \<noteq> None then
          with_formula (''h = 0.5gt'' @ sup2)
            (assign results ''time''
               (math_sqrt A (py_truediv A (py_mul A (lit A 2) (num height)) (Inr gravity))))
        else Inl (ValueError ''Insufficient data or invalid combination of inputs!''))
       (ValueError ''Division by zero error!''))"

section \<open>CalculationHistory\<close>

text \<open>
  A history entry is the dictionary built by \<^verbatim>\<open>add_calculation\<close>; the history object
  holds its file name and the list of entries. The disk maps a path to the entry list
  that the JSON text stored there encodes, and knows the paths on which
  \<^verbatim>\<open>open(path, 'w')\<close> raises IOError. Messages printed to the terminal are left out.
\<close>

type_synonym 'f inputs_dict = "(string \<times> 'f option) list"

record 'f entry =
  timestamp :: string
  topic :: string
  inputs :: "'f inputs_dict"
  results :: "'f results"

record 'f CalculationHistory =
  filename :: string
  history :: "'f entry list"

record 'f disk =
  files :: "string \<rightharpoonup> 'f entry list"
  unwritable :: "string set"

text \<open>\<^verbatim>\<open>now\<close> is the formatted \<^verbatim>\<open>datetime.now()\<close>.\<close>

definition add_calculation ::
  "string \<Rightarrow> string \<Rightarrow> 'f inputs_dict \<Rightarrow> (string \<times> 'f pyval) list \<Rightarrow> 'f CalculationHistory
     \<Rightarrow> 'f CalculationHistory" where
  "add_calculation now tp inp res self =
     self\<lparr>history := history self @
       [\<lparr>timestamp = now, topic = tp, inputs = inp, results = res\<rparr>]\<rparr>"

text \<open>An IOError of the write is caught and only reported: the disk stays as it was.\<close>

definition save_history :: "'f CalculationHistory \<Rightarrow> 'f disk \<Rightarrow> 'f disk" where
  "save_history self d =
     (if filename self \<in> unwritable d then d
      else d\<lparr>files := (files d)(filename self \<mapsto> history self)\<rparr>)"

definition clear_history ::
  "'f CalculationHistory \<Rightarrow> 'f disk \<Rightarrow> 'f CalculationHistory \<times> 'f disk" where
  "clear_history self d = (let self' = self\<lparr>history := []\<rparr> in (self', save_history self' d))"

text \<open>\<^verbatim>\<open>__exit__\<close> of the context manager, run when the main loop is left.\<close>

definition exit_history :: "'f CalculationHistory \<Rightarrow> 'f disk \<Rightarrow> 'f disk" where
  "exit_history self d = save_history self d"

text \<open>
  The two mutating operations as the program performs them on the pair of history object
  and disk: \<^verbatim>\<open>add_calculation\<close> has no access to the disk.
\<close>

datatype 'f mutation = Append string string "'f inputs_dict" "(string \<times> 'f pyval) list" | Clear

fun mutate ::
  "'f mutation \<Rightarrow> 'f CalculationHistory \<times> 'f disk \<Rightarrow> 'f CalculationHistory \<times> 'f disk" where
  "mutate (Append now tp inp res) (self, d) = (add_calculation now tp inp res self, d)"
| "mutate Clear (self, d) = clear_history self d"

text \<open>The file of the history object holds exactly the in-memory sequence.\<close>

definition in_sync :: "'f CalculationHistory \<times> 'f disk \<Rightarrow> bool" where
  "in_sync st = (case st of (self, d) \<Rightarrow> files d (filename self) = Some (history self))"

section \<open>The formula families of the equations of motion, as the specification words them\<close>

datatype formula = VUAT | SUT | VUAS

fun formula_label :: "formula \<Rightarrow> string" where
  "formula_label VUAT = ''v = u + at''"
| "formula_label SUT = ''s = ut + 0.5at'' @ sup2"
| "formula_label VUAS = ''v'' @ sup2 @ '' = u'' @ sup2 @ '' + 2as''"

text \<open>The four quantities a formula relates, by the keys of the input dictionary.\<close>

fun required ::
  "formula \<Rightarrow> 'f option \<Rightarrow> 'f option \<Rightarrow> 'f option \<Rightarrow> 'f option \<Rightarrow> 'f option
     \<Rightarrow> (string \<times> 'f option) list" where
  "required VUAT u v a t s =
     [(''final_velocity'', v), (''initial_velocity'', u), (''acceleration'', a), (''time'', t)]"
| "required SUT u v a t s =
     [(''distance'', s), (''initial_velocity'', u), (''time'', t), (''acceleration'', a)]"
| "required VUAS u v a t s =
     [(''final_velocity'', v), (''initial_velocity'', u), (''acceleration'', a), (''distance'', s)]"

definition absent :: "(string \<times> 'f option) list \<Rightarrow> string list" where
  "absent qs = map fst (filter (\<lambda>q. snd q = None) qs)"

definition exactly_one_absent ::
  "formula \<Rightarrow> 'f option \<Rightarrow> 'f option \<Rightarrow> 'f option \<Rightarrow> 'f option \<Rightarrow> 'f option \<Rightarrow> bool" where
  "exactly_one_absent f u v a t s = (none_count (map snd (required f u v a t s)) = 1)"

text \<open>The first formula, in the order (1), (2), (3), with exactly one of its four absent.\<close>

definition first_eligible ::
  "'f option \<Rightarrow> 'f option \<Rightarrow> 'f option \<Rightarrow> 'f option \<Rightarrow> 'f option \<Rightarrow> formula option" where
  "first_eligible u v a t s = find (\<lambda>f. exactly_one_absent f u v a t s) [VUAT, SUT, VUAS]"

text \<open>
  The same, where \<open>s = ut + 0.5at^2\<close> counts only when its absent quantity is not the
  time: the source has no branch that solves this formula for the time.
\<close>

definition solvable ::
  "formula \<Rightarrow> 'f option \<Rightarrow> 'f option \<Rightarrow> 'f option \<Rightarrow> 'f option \<Rightarrow> 'f option \<Rightarrow> bool" where
  "solvable f u v a t s =
     (exactly_one_absent f u v a t s \<and> \<not> (f = SUT \<and> absent (required f u v a t s) = [''time'']))"

definition first_solvable ::
  "'f option \<Rightarrow> 'f option \<Rightarrow> 'f option \<Rightarrow> 'f option \<Rightarrow> 'f option \<Rightarrow> formula option" where
  "first_solvable u v a t s = find (\<lambda>f. solvable f u v a t s) [VUAT, SUT, VUAS]"

text \<open>
  The solve paths of each formula on its own, chosen by the quantity that is absent:
  for v = u + at solve v, u, a (fails if time is zero), t (fails if acceleration is zero);
  for s = ut + 0.5at^2 solve s, u (fails if time is zero), a (fails if time is zero);
  for v^2 = u^2 + 2as solve v and u (fail if the square is negative), a (fails if
  distance is zero), s (fails if acceleration is zero). The value is the rearranged
  formula in the float arithmetic.
\<close>

fun unknown_value ::
  "'f arith \<Rightarrow> formula \<Rightarrow> 'f option \<Rightarrow> 'f option \<Rightarrow> 'f option \<Rightarrow> 'f option \<Rightarrow> 'f option
     \<Rightarrow> error + 'f" where
  "unknown_value A VUAT u v a t s =
     (if v = None then py_add A (num u) (py_mul A (num a) (num t))
      else if u = None then py_sub A (num v) (py_mul A (num a) (num t))
      else if a = None then
        (if eq_zero A t then Inl (ValueError ''Time cannot be zero!'')
         else py_truediv A (py_sub A (num v) (num u)) (num t))
      else
        (if eq_zero A a then Inl (ValueError ''Acceleration cannot be zero!'')
         else py_truediv A (py_sub A (num v) (num u)) (num a)))"
| "unknown_value A SUT u v a t s =
     (if s = None then
        py_add A (py_mul A (num u) (num t))
          (py_mul A (lit A 0.5) (py_mul A (num a) (py_pow A (num t) 2)))
      else if eq_zero A t then Inl (ValueError ''Time cannot be zero!'')
      else if u = None then
        py_truediv A
          (py_sub A (num s) (py_mul A (py_mul A (lit A 0.5) (num a)) (py_pow A (num t) 2)))
          (num t)
      else
        py_truediv A (py_mul A (lit A 2) (py_sub A (num s) (py_mul A (num u) (num t))))
          (py_pow A (num t) 2))"
| "unknown_value A VUAS u v a t s =
     (if v = None then
        then_py (py_add A (py_pow A (num u) 2) (py_mul A (py_mul A (lit A 2) (num a)) (num s)))
          (\<lambda>sq. if f_is_neg A sq
                then Inl (ValueError ''Cannot calculate square root of negative number!'')
                else math_sqrt A (Inr sq))
      else if u = None then
        then_py (py_sub A (py_pow A (num v) 2) (py_mul A (py_mul A (lit A 2) (num a)) (num s)))
          (\<lambda>sq. if f_is_neg A sq
                then Inl (ValueError ''Cannot calculate square root of negative number!'')
                else math_sqrt A (Inr sq))
      else if a = None then
        (if eq_zero A s then Inl (ValueError ''Distance cannot be zero!'')
         else py_truediv A (py_sub A (py_pow A (num v) 2) (py_pow A (num u) 2))
                (py_mul A (lit A 2) (num s)))
      else
        (if eq_zero A a then Inl (ValueError ''Acceleration cannot be zero!'')
         else py_truediv A (py_sub A (py_pow A (num v) 2) (py_pow A (num u) 2))
                (py_mul A (lit A 2) (num a))))"

text \<open>
  What a formula returns: its absent quantity under that quantity's key, then the
  formula's label; a division by zero becomes the "Division by zero error!" ValueError.
\<close>

definition formula_result ::
  "'f arith \<Rightarrow> formula \<Rightarrow> 'f option \<Rightarrow> 'f option \<Rightarrow> 'f option \<Rightarrow> 'f option \<Rightarrow> 'f option
     \<Rightarrow> error + 'f results" where
  "formula_result A f u v a t s =
     except_ZeroDivisionError
       (then_py (unknown_value A f u v a t s)
          (\<lambda>x. Inr [(hd (absent (required f u v a t s)), Num x),
                    (''formula'', Str (formula_label f))]))
       (ValueError ''Division by zero error!'')"

text \<open>The label stored under \<^verbatim>\<open>"formula"\<close> by a calculation that returned.\<close>

definition formula_used :: "error + 'f results \<Rightarrow> 'f pyval option" where
  "formula_used r = (case r of Inl e \<Rightarrow> None | Inr d \<Rightarrow> map_of d ''formula'')"

text \<open>
  Floating-point tolerance: the float \<open>x\<close> stands for the real \<open>r\<close> up to the relative
  error \<open>eps\<close>.
\<close>

definition approximates :: "'f arith \<Rightarrow> real \<Rightarrow> 'f \<Rightarrow> real \<Rightarrow> bool" where
  "approximates A eps x r = (\<bar>f_val A x - r\<bar> \<le> eps * \<bar>r\<bar>)"

section \<open>Unfolding rules\<close>

lemmas py_defs = then_py_def num_def lit_def py_add_def py_sub_def py_mul_def py_truediv_def
  py_pow_def math_sqrt_def assign_def except_ZeroDivisionError_def with_formula_def
  none_count_def GRAVITY_FORCE_def eq_zero_def

lemmas spec_defs = first_eligible_def first_solvable_def solvable_def exactly_one_absent_def
  absent_def formula_used_def sup2_def formula_result_def

section \<open>Formula priority of the equations of motion\<close>

text \<open>
  C1, as stated: the solver uses the first formula, in the order (1) v = u + at,
  (2) s = ut + 0.5at^2, (3) v^2 = u^2 + 2as, whose four quantities have exactly one absent.
  This fails for u = 0, a = 2, s = 4 with final velocity and time absent: formula (1)
  misses two of its four, formula (2) misses only the time, yet the result carries the
  label of formula (3).
\<close>

theorem EquationOfMotion_first_eligible_counterexample:
  "first_eligible (Some (0::real)) None (Some 2) None (Some 4) = Some SUT \<and>
   formula_used (EquationOfMotion_calculate exact_arith (Some 0) None (Some 2) None (Some 4) []) =
     Some (Str (formula_label VUAS)) \<and>
   formula_label VUAS \<noteq> formula_label SUT"
  by (simp add: EquationOfMotion_calculate_def py_defs spec_defs exact_arith_def)

text \<open>
  C1, amended: the formulas are tried in the order (1), (2), (3), where formula (2) is
  passed over when the quantity it misses is the time. If no formula can be used the
  solver raises the "Insufficient data" ValueError. Otherwise the outcome is exactly
  that of the first usable formula solved for its absent quantity: its value under the
  quantity's key together with the formula's label, or the failure of that solve path
  (its guard, a division by zero, an overflow); no later formula is tried. This holds
  in every float arithmetic.
\<close>

theorem EquationOfMotion_formula_priority:
  "EquationOfMotion_calculate A u v a t s [] =
     (case first_solvable u v a t s of
        None \<Rightarrow> Inl (ValueError ''Insufficient data or invalid combination of inputs!'')
      | Some f \<Rightarrow> formula_result A f u v a t s)"
  by (cases u; cases v; cases a; cases t; cases s)
     (simp_all add: EquationOfMotion_calculate_def py_defs spec_defs split: option.splits)

section \<open>Exactly two values for Motion and FreeFall\<close>

text \<open>
  C2: when the number of absent quantities among the three is not exactly one, both the
  Motion and the FreeFall solver raise the ValueError "You must provide exactly 2 values!"
  and return no result.
\<close>

theorem exactly_two_values_required:
  "none_count [x, y, z] \<noteq> 1 \<Longrightarrow>
     Motion_calculate A x y z res = Inl (ValueError ''You must provide exactly 2 values!'') \<and>
     FreeFall_calculate A x y z res = Inl (ValueError ''You must provide exactly 2 values!'')"
  by (simp add: Motion_calculate_def FreeFall_calculate_def)

text \<open>Witness: all three values given, and only one value given.\<close>

theorem exactly_two_values_required_witness:
  "none_count [Some (1::real), Some 2, Some 2] \<noteq> 1 \<and>
   none_count [None, None, Some (2::real)] \<noteq> 1 \<and>
   Motion_calculate exact_arith (Some 1) (Some 2) (Some 2) [] =
     Inl (ValueError ''You must provide exactly 2 values!'') \<and>
   FreeFall_calculate exact_arith None None (Some 2) [] =
     Inl (ValueError ''You must provide exactly 2 values!'')"
  using exactly_two_values_required [of "Some 1" "Some 2" "Some 2" exact_arith "[]"]
    exactly_two_values_required [of None None "Some 2" exact_arith "[]"]
  by (simp add: none_count_def)

section \<open>Free fall for two seconds\<close>

text \<open>
  C3, as stated: a free-fall input with time = 2 and the other quantities absent gives
  the final velocity 19.6, and an input with the height absent and time = 2 gives the
  height 19.6. With the time alone the count check rejects the input, and with the
  height absent the height is computed from the final velocity, not from the time.
\<close>

theorem FreeFall_time_only_counterexample:
  "FreeFall_calculate exact_arith None None (Some 2) [] =
     Inl (ValueError ''You must provide exactly 2 values!'') \<and>
   FreeFall_calculate exact_arith (Some 1) None (Some 2) [] =
     Inr [(''height'', Num (5 / 98)), (''formula'', Str (''v'' @ sup2 @ '' = 2gh''))]"
  by (simp add: FreeFall_calculate_def py_defs exact_arith_def)

text \<open>
  C3, amended: with gravity 9.8, an input whose final velocity is absent and whose height
  and time are given yields the final velocity 9.8 * time by v = gt, which is 19.6 for
  time = 2. An input whose height is absent and whose final velocity and time are given
  yields the height final_velocity ** 2 / (2 * 9.8) by v^2 = 2gh, unless the square
  overflows, which raises OverflowError; for final velocity 19.6 and time = 2 the height
  is 19.6.
\<close>

theorem FreeFall_two_seconds:
  "FreeFall_calculate A None (Some h) (Some t) [] =
     Inr [(''final_velocity'', Num (f_mul A (GRAVITY_FORCE A) t)), (''formula'', Str ''v = gt'')] \<and>
   FreeFall_calculate exact_arith None (Some h') (Some 2) [] =
     Inr [(''final_velocity'', Num 19.6), (''formula'', Str ''v = gt'')] \<and>
   FreeFall_calculate A (Some v) None (Some t) [] =
     (case f_pow A v 2 of
        None \<Rightarrow> Inl OverflowError
      | Some p \<Rightarrow>
          if f_is_zero A (f_mul A (f_lit A 2) (GRAVITY_FORCE A))
          then Inl (ValueError ''Division by zero error!'')
          else Inr [(''height'', Num (f_div A p (f_mul A (f_lit A 2) (GRAVITY_FORCE A)))),
                    (''formula'', Str (''v'' @ sup2 @ '' = 2gh''))]) \<and>
   FreeFall_calculate exact_arith (Some 19.6) None (Some 2) [] =
     Inr [(''height'', Num 19.6), (''formula'', Str (''v'' @ sup2 @ '' = 2gh''))]"
  by (simp add: FreeFall_calculate_def py_defs exact_arith_def power2_eq_square
        split: option.splits)

section \<open>Persistence of the history\<close>

text \<open>
  C4, as stated: every mutation of the history, appending included, rewrites the file so
  that it equals the in-memory sequence. Appending one entry to an empty history whose
  file holds the empty list leaves the file behind the memory.
\<close>

theorem add_calculation_not_persisted_counterexample:
  "in_sync (\<lparr>filename = ''physics_history.json'', history = []\<rparr>,
            \<lparr>files = [''physics_history.json'' \<mapsto> []], unwritable = {}\<rparr>) \<and>
   \<not> in_sync
      (mutate
         (Append ''2026-01-01 12:00:00'' ''Motion''
            [(''speed'', None), (''time'', Some 5), (''distance'', Some 100)]
            [(''speed'', Num (20::real))])
         (\<lparr>filename = ''physics_history.json'', history = []\<rparr>,
          \<lparr>files = [''physics_history.json'' \<mapsto> []], unwritable = {}\<rparr>))"
  by (simp add: in_sync_def add_calculation_def)

text \<open>
  C4, amended: when the history file can be opened for writing, clearing empties the
  in-memory sequence and rewrites the file to equal it, and leaving the context manager
  rewrites the file to equal the in-memory sequence. Appending adds the new entry at the
  end of the in-memory sequence and leaves the disk as it is; the entry reaches the file
  with the rewrite at shutdown.
\<close>

theorem history_persistence:
  "filename self \<notin> unwritable d \<Longrightarrow>
     in_sync (mutate Clear (self, d)) \<and>
     history (fst (mutate Clear (self, d))) = [] \<and>
     in_sync (self, exit_history self d) \<and>
     mutate (Append now tp inp res) (self, d) =
       (self\<lparr>history := history self @
          [\<lparr>timestamp = now, topic = tp, inputs = inp, results = res\<rparr>]\<rparr>, d) \<and>
     in_sync (fst (mutate (Append now tp inp res) (self, d)),
              exit_history (fst (mutate (Append now tp inp res) (self, d))) d)"
  by (simp add: in_sync_def add_calculation_def clear_history_def exit_history_def
        save_history_def Let_def)

text \<open>Witness: a history of one entry over a writable, still empty disk, cleared.\<close>

theorem history_persistence_witness:
  "''physics_history.json'' \<notin> unwritable \<lparr>files = Map.empty, unwritable = {}\<rparr> \<and>
   in_sync (mutate Clear
     (\<lparr>filename = ''physics_history.json'',
       history = [\<lparr>timestamp = ''2026-01-01 12:00:00'', topic = ''Motion'',
                   inputs = [(''speed'', None)], results = [(''speed'', Num (20::real))]\<rparr>]\<rparr>,
      \<lparr>files = Map.empty, unwritable = {}\<rparr>))"
  using history_persistence
    [of "\<lparr>filename = ''physics_history.json'',
           history = [\<lparr>timestamp = ''2026-01-01 12:00:00'', topic = ''Motion'',
                       inputs = [(''speed'', None)], results = [(''speed'', Num (20::real))]\<rparr>]\<rparr>"
        "\<lparr>files = Map.empty, unwritable = {}\<rparr>"]
  by simp

section \<open>Round trip of the Motion solver\<close>

text \<open>
  C5, as stated: for every triple with distance = speed * time and time \<noteq> 0, omitting any
  one quantity gives it back. The triple speed = 0, time = 5, distance = 0 satisfies the
  premise, and with the time omitted the solver raises "Speed cannot be zero!".
\<close>

theorem Motion_roundtrip_zero_speed_counterexample:
  "(0::real) = 0 * 5 \<and> (5::real) \<noteq> 0 \<and>
   Motion_calculate exact_arith (Some 0) None (Some 0) [] =
     Inl (ValueError ''Speed cannot be zero!'')"
  by (simp add: Motion_calculate_def py_defs exact_arith_def)

text \<open>
  C5, amended: for every triple of floats whose values satisfy distance = speed * time
  with time \<noteq> 0, the solver returns the float quotient distance / time when the speed is
  omitted and the float product speed * time when the distance is omitted; when the time
  is omitted it returns the float quotient distance / speed provided speed \<noteq> 0. Each
  returned float equals the omitted quantity within the floating-point tolerance, that
  is within the relative error \<open>eps\<close> with which the one float operation performed
  approximates the exact quotient or product of its operands.
\<close>

theorem Motion_roundtrip:
  assumes "f_val A distance = f_val A speed * f_val A time"
    and "\<not> f_is_zero A time" and "f_val A time \<noteq> 0"
    and "approximates A eps (f_div A distance time) (f_val A distance / f_val A time)"
    and "approximates A eps (f_mul A speed time) (f_val A speed * f_val A time)"
    and "approximates A eps (f_div A distance speed) (f_val A distance / f_val A speed)"
  shows "Motion_calculate A None (Some time) (Some distance) [] =
           Inr [(''speed'', Num (f_div A distance time))] \<and>
         approximates A eps (f_div A distance time) (f_val A speed) \<and>
         Motion_calculate A (Some speed) (Some time) None [] =
           Inr [(''distance'', Num (f_mul A speed time))] \<and>
         approximates A eps (f_mul A speed time) (f_val A distance) \<and>
         (\<not> f_is_zero A speed \<and> f_val A speed \<noteq> 0 \<longrightarrow>
            Motion_calculate A (Some speed) None (Some distance) [] =
              Inr [(''time'', Num (f_div A distance speed))] \<and>
            approximates A eps (f_div A distance speed) (f_val A time))"
  using assms by (auto simp add: Motion_calculate_def py_defs)

text \<open>Witness: speed 20, time 5, distance 100, where every operation is exact.\<close>

theorem Motion_roundtrip_witness:
  "f_val exact_arith 100 = f_val exact_arith 20 * f_val exact_arith 5 \<and>
   \<not> f_is_zero exact_arith 5 \<and> \<not> f_is_zero exact_arith 20 \<and>
   approximates exact_arith (2 / 2 ^ 53) (f_mul exact_arith 20 5)
     (f_val exact_arith 20 * f_val exact_arith 5) \<and>
   approximates exact_arith (2 / 2 ^ 53) (f_div exact_arith 100 20)
     (f_val exact_arith 100 / f_val exact_arith 20) \<and>
   Motion_calculate exact_arith None (Some 5) (Some 100) [] = Inr [(''speed'', Num 20)] \<and>
   Motion_calculate exact_arith (Some 20) (Some 5) None [] = Inr [(''distance'', Num 100)] \<and>
   Motion_calculate exact_arith (Some 20) None (Some 100) [] = Inr [(''time'', Num 5)] \<and>
   approximates exact_arith (2 / 2 ^ 53) (f_div exact_arith 100 5) 20"
  using Motion_roundtrip [of exact_arith 100 20 5 "2 / 2 ^ 53"]
  by (simp add: exact_arith_def approximates_def)

section \<open>Inputs that fit no formula\<close>

text \<open>
  C6: when none of the three formulas has exactly one absent quantity among its own four,
  the equation-of-motion solver raises the ValueError "Insufficient data or invalid
  combination of inputs!" and computes nothing.
\<close>

theorem EquationOfMotion_insufficient:
  "\<not> exactly_one_absent VUAT u v a t s \<Longrightarrow> \<not> exactly_one_absent SUT u v a t s \<Longrightarrow>
   \<not> exactly_one_absent VUAS u v a t s \<Longrightarrow>
     EquationOfMotion_calculate A u v a t s res =
       Inl (ValueError ''Insufficient data or invalid combination of inputs!'')"
  by (cases u; cases v; cases a; cases t; cases s)
     (simp_all add: EquationOfMotion_calculate_def py_defs exactly_one_absent_def)

text \<open>Witness: only the two velocities given.\<close>

theorem EquationOfMotion_insufficient_witness:
  "\<not> exactly_one_absent VUAT (Some (1::real)) (Some 2) None None None \<and>
   \<not> exactly_one_absent SUT (Some (1::real)) (Some 2) None None None \<and>
   \<not> exactly_one_absent VUAS (Some (1::real)) (Some 2) None None None \<and>
   EquationOfMotion_calculate exact_arith (Some 1) (Some 2) None None None [] =
     Inl (ValueError ''Insufficient data or invalid combination of inputs!'')"
  using EquationOfMotion_insufficient [of "Some 1" "Some 2" None None None exact_arith "[]"]
  by (simp add: exactly_one_absent_def none_count_def)

section \<open>Negative square roots\<close>

text \<open>
  C7: when the solver reaches the v^2 = u^2 + 2as branch for the final velocity (initial
  velocity, acceleration and distance given, final velocity and time absent) and the
  intermediate value u ** 2 + 2 * a * s it has computed is negative, it raises the
  ValueError "Cannot calculate square root of negative number!" and returns no value;
  likewise for the initial velocity when the computed v ** 2 - 2 * a * s is negative.
\<close>

theorem EquationOfMotion_negative_root:
  "(f_pow A u 2 = Some p \<and> f_is_neg A (f_add A p (f_mul A (f_mul A (f_lit A 2) a) s)) \<longrightarrow>
      EquationOfMotion_calculate A (Some u) None (Some a) None (Some s) res =
        Inl (ValueError ''Cannot calculate square root of negative number!'')) \<and>
   (f_pow A v 2 = Some q \<and> f_is_neg A (f_sub A q (f_mul A (f_mul A (f_lit A 2) a') s')) \<longrightarrow>
      EquationOfMotion_calculate A None (Some v) (Some a') None (Some s') res =
        Inl (ValueError ''Cannot calculate square root of negative number!''))"
  by (simp add: EquationOfMotion_calculate_def py_defs)

text \<open>Witness: u = 3, a = -10, s = 5, and v = 3, a = 10, s = 5.\<close>

theorem EquationOfMotion_negative_root_witness:
  "f_pow exact_arith 3 2 = Some 9 \<and>
   f_is_neg exact_arith (f_add exact_arith 9 (f_mul exact_arith (f_mul exact_arith 2 (-10)) 5)) \<and>
   f_is_neg exact_arith (f_sub exact_arith 9 (f_mul exact_arith (f_mul exact_arith 2 10) 5)) \<and>
   EquationOfMotion_calculate exact_arith (Some 3) None (Some (-10)) None (Some 5) [] =
     Inl (ValueError ''Cannot calculate square root of negative number!'') \<and>
   EquationOfMotion_calculate exact_arith None (Some 3) (Some 10) None (Some 5) [] =
     Inl (ValueError ''Cannot calculate square root of negative number!'')"
  using EquationOfMotion_negative_root
    [of exact_arith 3 9 "-10" 5 "[]" 3 9 10 5]
  by (simp add: exact_arith_def)

section \<open>Zero guards of the Motion solver\<close>

text \<open>
  C8: solving for the speed with a time equal to zero raises the ValueError "Time cannot
  be zero!", solving for the time with a speed equal to zero raises the ValueError
  "Speed cannot be zero!", and on no input does a ZeroDivisionError leave the solver.
\<close>

theorem Motion_zero_guards:
  "(f_is_zero A t \<longrightarrow>
      Motion_calculate A None (Some t) (Some d) res = Inl (ValueError ''Time cannot be zero!'')) \<and>
   (f_is_zero A s \<longrightarrow>
      Motion_calculate A (Some s) None (Some d') res =
        Inl (ValueError ''Speed cannot be zero!'')) \<and>
   Motion_calculate A x y z res \<noteq> Inl ZeroDivisionError"
  by (cases x; cases y; cases z) (simp_all add: Motion_calculate_def py_defs)

text \<open>Witness: time 0 and speed 0 with distance 100.\<close>

theorem Motion_zero_guards_witness:
  "f_is_zero exact_arith 0 \<and>
   Motion_calculate exact_arith None (Some 0) (Some 100) [] =
     Inl (ValueError ''Time cannot be zero!'') \<and>
   Motion_calculate exact_arith (Some 0) None (Some 100) [] =
     Inl (ValueError ''Speed cannot be zero!'')"
  using Motion_zero_guards [of exact_arith 0 100 "[]" 0 100]
  by (simp add: exact_arith_def)

section \<open>Free fall with exactly one quantity absent\<close>

text \<open>
  C9, as stated: with exactly one of final velocity, height and time absent the free-fall
  solver always succeeds. With the height absent and the final velocity 2 ^ 512 (time
  2) the square of the final velocity overflows and the solver raises OverflowError.
\<close>

theorem FreeFall_overflow_counterexample:
  "none_count [Some (2 ^ 512 :: real), None, Some 2] = 1 \<and>
   FreeFall_calculate exact_arith (Some (2 ^ 512)) None (Some 2) [] = Inl OverflowError"
  by (simp add: FreeFall_calculate_def py_defs exact_arith_def)

text \<open>
  C9, amended: with exactly one of final velocity, height and time absent (and 9.8 and
  2 * 9.8 not zero) the outcome is fully determined by which quantity is absent: final
  velocity absent yields 9.8 * time under "v = gt"; time absent yields
  final_velocity / 9.8 under "v = gt"; height absent yields
  final_velocity ** 2 / (2 * 9.8) under "v^2 = 2gh", unless the square overflows, which
  raises OverflowError. No ValueError is raised past the count check, and the label
  "h = 0.5gt^2" and the "Insufficient data" branch never occur.
\<close>

theorem FreeFall_exactly_one_absent:
  assumes "none_count [fv, h, t] = 1"
    and "\<not> f_is_zero A (GRAVITY_FORCE A)"
    and "\<not> f_is_zero A (f_mul A (f_lit A 2) (GRAVITY_FORCE A))"
  shows
    "((\<exists>h' t'. fv = None \<and> h = Some h' \<and> t = Some t' \<and>
         FreeFall_calculate A fv h t [] =
           Inr [(''final_velocity'', Num (f_mul A (GRAVITY_FORCE A) t')),
                (''formula'', Str ''v = gt'')])
    \<or> (\<exists>v' h'. fv = Some v' \<and> h = Some h' \<and> t = None \<and>
         FreeFall_calculate A fv h t [] =
           Inr [(''time'', Num (f_div A v' (GRAVITY_FORCE A))), (''formula'', Str ''v = gt'')])
    \<or> (\<exists>v' t'. fv = Some v' \<and> h = None \<and> t = Some t' \<and>
         FreeFall_calculate A fv h t [] =
           (case f_pow A v' 2 of
              None \<Rightarrow> Inl OverflowError
            | Some p \<Rightarrow>
                Inr [(''height'', Num (f_div A p (f_mul A (f_lit A 2) (GRAVITY_FORCE A)))),
                     (''formula'', Str (''v'' @ sup2 @ '' = 2gh''))])))
   \<and> (\<forall>msg. FreeFall_calculate A fv h t [] \<noteq> Inl (ValueError msg))
   \<and> formula_used (FreeFall_calculate A fv h t []) \<noteq> Some (Str (''h = 0.5gt'' @ sup2))"
  using assms
  by (cases fv; cases h; cases t)
     (simp_all add: FreeFall_calculate_def py_defs spec_defs split: option.splits)

text \<open>Witness: height absent, final velocity 7 and time 3 given.\<close>

theorem FreeFall_exactly_one_absent_witness:
  "none_count [Some (7::real), None, Some 3] = 1 \<and>
   \<not> f_is_zero exact_arith (GRAVITY_FORCE exact_arith) \<and>
   \<not> f_is_zero exact_arith (f_mul exact_arith (f_lit exact_arith 2) (GRAVITY_FORCE exact_arith)) \<and>
   FreeFall_calculate exact_arith (Some 7) None (Some 3) [] =
     Inr [(''height'', Num (5 / 2)), (''formula'', Str (''v'' @ sup2 @ '' = 2gh''))]"
  using FreeFall_exactly_one_absent [of "Some 7" None "Some 3" exact_arith]
  by (simp add: none_count_def exact_arith_def GRAVITY_FORCE_def)

section \<open>Two unknowns in the equations of motion\<close>

text \<open>
  C10, as stated: with initial velocity, acceleration and distance given and both final
  velocity and time absent, the solver computes the final velocity as the square root of
  u^2 + 2as for every such input. For u = 3, a = -10, s = 5 it computes nothing and
  raises the negative-square-root ValueError.
\<close>

theorem EquationOfMotion_two_unknowns_counterexample:
  "EquationOfMotion_calculate exact_arith (Some 3) None (Some (-10)) None (Some 5) [] =
     Inl (ValueError ''Cannot calculate square root of negative number!'')"
  by (simp add: EquationOfMotion_calculate_def py_defs exact_arith_def)

text \<open>
  C10, amended: with initial velocity, acceleration and distance given and both final
  velocity and time absent, the solver takes the v^2 = u^2 + 2as branch: it returns the
  final velocity sqrt (u ** 2 + 2 * a * s), computed in floats, when that computed value
  is not negative, raises the negative-square-root ValueError when it is negative, and
  raises OverflowError when u ** 2 overflows. It never raises the "Insufficient data" or
  the "exactly 2 values" ValueError, so the one-unknown rule is not enforced across the
  five quantities.
\<close>

theorem EquationOfMotion_two_unknowns:
  "EquationOfMotion_calculate A (Some u) None (Some a) None (Some s) [] =
     (case f_pow A u 2 of
        None \<Rightarrow> Inl OverflowError
      | Some p \<Rightarrow>
          if f_is_neg A (f_add A p (f_mul A (f_mul A (f_lit A 2) a) s))
          then Inl (ValueError ''Cannot calculate square root of negative number!'')
          else Inr [(''final_velocity'',
                     Num (f_sqrt A (f_add A p (f_mul A (f_mul A (f_lit A 2) a) s)))),
                    (''formula'', Str (''v'' @ sup2 @ '' = u'' @ sup2 @ '' + 2as''))])"
  by (simp add: EquationOfMotion_calculate_def py_defs split: option.splits)

end
